theory Spec2Isabelle
  imports Complex_Main "HOL-Library.Word"
begin

section \<open>Vector3 (YetAnotherMathLib/include/Vector3.h)\<close>

text \<open>
  The components are \<open>flt\<close> values. Their arithmetic is idealised to the reals: rounding,
  infinities and NaN are outside this development, which is about the renderer's control
  flow, its indices and the formulas it evaluates.
\<close>

datatype Vector3 = Vector3 (vx: real) (vy: real) (vz: real)

text \<open>\<^verbatim>\<open>explicit Vector3(flt x) : x(x), y(x), z(x)\<close>\<close>

definition Vector3s :: "real \<Rightarrow> Vector3" where
  "Vector3s a = Vector3 a a a"

text \<open>\<^verbatim>\<open>flt Length() const { return std::sqrt(x * x + y * y + z * z); }\<close>\<close>

definition Length :: "Vector3 \<Rightarrow> real" where
  "Length v = sqrt (vx v * vx v + vy v * vy v + vz v * vz v)"

text \<open>\<^verbatim>\<open>operator-() const\<close>, \<^verbatim>\<open>operator+\<close>, \<^verbatim>\<open>operator-\<close>, \<^verbatim>\<open>operator*(flt)\<close>, \<^verbatim>\<open>operator/(flt)\<close>\<close>

definition Vector3_neg :: "Vector3 \<Rightarrow> Vector3" where
  "Vector3_neg v = Vector3 (- vx v) (- vy v) (- vz v)"

definition Vector3_add :: "Vector3 \<Rightarrow> Vector3 \<Rightarrow> Vector3" where
  "Vector3_add a b = Vector3 (vx a + vx b) (vy a + vy b) (vz a + vz b)"

definition Vector3_sub :: "Vector3 \<Rightarrow> Vector3 \<Rightarrow> Vector3" where
  "Vector3_sub a b = Vector3 (vx a - vx b) (vy a - vy b) (vz a - vz b)"

definition Vector3_mul :: "Vector3 \<Rightarrow> real \<Rightarrow> Vector3" where
  "Vector3_mul v scalar = Vector3 (vx v * scalar) (vy v * scalar) (vz v * scalar)"

definition Vector3_div :: "Vector3 \<Rightarrow> real \<Rightarrow> Vector3" where
  "Vector3_div v scalar = Vector3 (vx v / scalar) (vy v / scalar) (vz v / scalar)"

text \<open>\<^verbatim>\<open>flt Dot(const Vector3& rhs) const\<close> and the static two-argument form.\<close>

definition Dot :: "Vector3 \<Rightarrow> Vector3 \<Rightarrow> real" where
  "Dot a b = vx a * vx b + vy a * vy b + vz a * vz b"

text \<open>
  \<^verbatim>\<open>Vector3 Normal() const\<close>. \<open>SmallNumber\<close> comes from \<^verbatim>\<open>Defines.h\<close>, which is not among
  the sources, so it is a parameter.
\<close>

definition Normal :: "real \<Rightarrow> Vector3 \<Rightarrow> Vector3" where
  "Normal SmallNumber v =
     (let len = Length v in
      if len < SmallNumber then Vector3s 0 else Vector3_div v len)"

section \<open>The renderer's data (Main/src/Renderer.cpp)\<close>

type_synonym u32 = "32 word"

text \<open>
  \<open>Color\<close> is seen by the renderer only through its packed value \<^verbatim>\<open>hex\<close> and the two
  conversions \<^verbatim>\<open>ToVector\<close> and \<^verbatim>\<open>FromVector\<close>; the class itself is not among the sources.
\<close>

type_synonym Color = u32

record Material =
  color :: Color

record RenderHitInfo =
  distance :: real
  normal :: Vector3
  material :: Material

text \<open>
  A \<open>Renderable\<close> is its \<^verbatim>\<open>Trace(ray, hitInfo)\<close> method: \<open>Some hitInfo\<close> when it returns
  true. A \<open>Camera\<close> is its \<^verbatim>\<open>GetRay(x, y)\<close> method. Both are functions of their arguments
  (the spec describes the ray source as a pure function of the pixel coordinates and the
  scene as read-only during a pass). The ray type is left open, and a hit carries its
  material rather than a pointer to it.
\<close>

type_synonym 'ray Renderable = "'ray \<Rightarrow> RenderHitInfo option"

type_synonym 'ray Camera = "nat \<Rightarrow> nat \<Rightarrow> 'ray"

text \<open>
  What the renderer takes from headers that are not among the sources: the constants
  \<open>SmallFloat\<close> and \<open>SmallNumber\<close> of \<^verbatim>\<open>Defines.h\<close> and the conversions of \<open>Color\<close>
  (\<open>FromVector\<close> stands for \<^verbatim>\<open>Color::FromVector(v).hex\<close>).
\<close>

record Externals =
  SmallFloat :: real
  SmallNumber :: real
  ToVector :: "Color \<Rightarrow> Vector3"
  FromVector :: "Vector3 \<Rightarrow> Color"

text \<open>\<^verbatim>\<open>std::numeric_limits<float>::max()\<close>, that is \<open>2 ^ 128 - 2 ^ 104\<close>.\<close>

definition FLT_MAX :: real where
  "FLT_MAX = 340282346638528859811704183484516925440"

section \<open>SamplePixel\<close>

text \<open>
  The loop over \<^verbatim>\<open>renderables\<close> keeps \<^verbatim>\<open>closestHit\<close> and \<^verbatim>\<open>wasIntersection\<close>. The flag is
  set exactly when \<^verbatim>\<open>closestHit\<close> is assigned from a hit, so the pair is one optional hit:
  \<open>None\<close> is the initial \<^verbatim>\<open>closestHit\<close>, whose only initialised field is the distance
  \<open>FLT_MAX\<close>, with \<^verbatim>\<open>wasIntersection = false\<close>.
\<close>

definition closestDistance :: "RenderHitInfo option \<Rightarrow> real" where
  "closestDistance closestHit =
     (case closestHit of None \<Rightarrow> FLT_MAX | Some h \<Rightarrow> distance h)"

definition considerHit :: "RenderHitInfo option \<Rightarrow> RenderHitInfo \<Rightarrow> RenderHitInfo option" where
  "considerHit closestHit hitInfo =
     (if distance hitInfo < closestDistance closestHit then Some hitInfo else closestHit)"

fun closestOf :: "'ray \<Rightarrow> 'ray Renderable list \<Rightarrow> RenderHitInfo option \<Rightarrow> RenderHitInfo option" where
  "closestOf ray [] closestHit = closestHit"
| "closestOf ray (renderable # rest) closestHit =
     closestOf ray rest
       (case renderable ray of
          None \<Rightarrow> closestHit
        | Some hitInfo \<Rightarrow> considerHit closestHit hitInfo)"

definition lightDir :: Vector3 where
  "lightDir = Vector3 (- 1) (- 1) 1"

definition lightValue :: "Externals \<Rightarrow> RenderHitInfo \<Rightarrow> real" where
  "lightValue ext closestHit =
     (let lightDotNorm =
            max 0 (Dot (normal closestHit) (Vector3_neg (Normal (SmallNumber ext) lightDir)))
      in min 1 (lightDotNorm + 1 / 10))"

definition SamplePixel ::
  "Externals \<Rightarrow> 'ray Camera \<Rightarrow> 'ray Renderable list \<Rightarrow> nat \<Rightarrow> nat \<Rightarrow> Vector3" where
  "SamplePixel ext camera renderables y x =
     (let ray = camera x y in
      case closestOf ray renderables None of
        Some closestHit \<Rightarrow>
          Vector3_mul (ToVector ext (color (material closestHit))) (lightValue ext closestHit)
      | None \<Rightarrow> Vector3s 0)"

section \<open>Errors\<close>

text \<open>
  The source has no exceptions of its own. What can go wrong is undefined behaviour of
  C++: an index of \<^verbatim>\<open>std::vector::operator[]\<close> outside the vector, and the overflow of the
  \<^verbatim>\<open>int\<close> loop counter of \<^verbatim>\<open>Render\<close>. Both are results of the model.
\<close>

datatype error = OutOfRange | IntOverflow

text \<open>\<^verbatim>\<open>samples[k]\<close> as a read and as the target of an assignment.\<close>

definition fetch :: "Vector3 list \<Rightarrow> nat \<Rightarrow> error + Vector3" where
  "fetch smp k = (if k < length smp then Inr (smp ! k) else Inl OutOfRange)"

definition store :: "Vector3 list \<Rightarrow> nat \<Rightarrow> Vector3 \<Rightarrow> error + Vector3 list" where
  "store smp k v = (if k < length smp then Inr (smp[k := v]) else Inl OutOfRange)"

text \<open>A \<^verbatim>\<open>for\<close> loop over a fixed range, threading a state; it stops at the first error.\<close>

fun forEach :: "'a list \<Rightarrow> ('a \<Rightarrow> 's \<Rightarrow> error + 's) \<Rightarrow> 's \<Rightarrow> error + 's" where
  "forEach [] body s = Inr s"
| "forEach (a # as) body s =
     (case body a s of Inl e \<Rightarrow> Inl e | Inr s' \<Rightarrow> forEach as body s')"

section \<open>The framebuffer\<close>

text \<open>
  Modelled from the spec: the class \<open>Buffer\<close> (\<^verbatim>\<open>Buffer.h\<close>) is not among the sources. The spec
  describes it as a fixed-size 2D pixel store with set-by-coordinate and bulk fill, whose
  \<open>fillColor\<close> sets every pixel to the given packed value. The sizes are 32-bit unsigned, as
  the parameters of the \<open>Renderer\<close> constructor that creates the buffer are.
\<close>

record Buffer =
  sizeX :: u32
  sizeY :: u32
  pix :: "nat \<Rightarrow> nat \<Rightarrow> Color"

definition FillColor :: "Color \<Rightarrow> Buffer \<Rightarrow> Buffer" where
  "FillColor c buffer = buffer\<lparr>pix := (\<lambda>x y. c)\<rparr>"

definition SetPix :: "nat \<Rightarrow> nat \<Rightarrow> Color \<Rightarrow> Buffer \<Rightarrow> Buffer" where
  "SetPix x y c buffer = buffer\<lparr>pix := (pix buffer)(x := (pix buffer x)(y := c))\<rparr>"

section \<open>The renderer\<close>

text \<open>
  The members of \<open>Renderer\<close>. The constructor sets \<open>samplesPerPixel = 8\<close>,
  \<open>bVariableSamplesPerPixel = true\<close> and \<open>tilesPerRow = 8\<close>. Their declarations are in
  \<^verbatim>\<open>Renderer.h\<close>, which is not among the sources: \<open>tilesPerRow\<close> is 32-bit unsigned like
  \<open>tilesNum\<close>, and \<open>samplesPerPixel\<close>, which only sizes the accumulator, is a natural number.
  The contents of a new buffer are left at 0; \<open>Render\<close> overwrites them.
\<close>

record 'ray Renderer =
  colorBuffer :: Buffer
  renderables :: "'ray Renderable list"
  samplesPerPixel :: nat
  bVariableSamplesPerPixel :: bool
  tilesPerRow :: u32

definition Renderer_new :: "u32 \<Rightarrow> u32 \<Rightarrow> 'ray Renderer" where
  "Renderer_new sx sy =
     \<lparr>colorBuffer = \<lparr>sizeX = sx, sizeY = sy, pix = (\<lambda>x y. 0)\<rparr>,
      renderables = [],
      samplesPerPixel = 8,
      bVariableSamplesPerPixel = True,
      tilesPerRow = 8\<rparr>"

definition AddRenderable :: "'ray Renderable \<Rightarrow> 'ray Renderer \<Rightarrow> 'ray Renderer" where
  "AddRenderable renderable r = r\<lparr>renderables := renderables r @ [renderable]\<rparr>"

record RenderBounds =
  minX :: u32
  minY :: u32
  maxX :: u32
  maxY :: u32

section \<open>RenderWorker: the samples of one pixel\<close>

text \<open>
  The accumulator \<^verbatim>\<open>samples\<close> has \<open>samplesPerPixel\<close> entries and is zeroed at the start of
  every pixel; \<^verbatim>\<open>numSamples\<close> counts the calls of \<open>SamplePixel\<close>. The counters
  \<^verbatim>\<open>sampleID\<close> and \<^verbatim>\<open>numSamples\<close> are natural numbers: they never pass the length of the
  accumulator by more than 2, so their machine types do not wrap.
\<close>

record PixelState =
  samples :: "Vector3 list"
  numSamples :: nat

definition clearSamples :: "nat \<Rightarrow> PixelState" where
  "clearSamples n = \<lparr>samples = replicate n (Vector3s 0), numSamples = 0\<rparr>"

text \<open>\<^verbatim>\<open>samples[sampleID] = SamplePixel(camera, i, j); numSamples++;\<close>\<close>

definition takeSample :: "Vector3 \<Rightarrow> nat \<Rightarrow> PixelState \<Rightarrow> error + PixelState" where
  "takeSample v sampleID st =
     (case store (samples st) sampleID v of
        Inl e \<Rightarrow> Inl e
      | Inr smp \<Rightarrow> Inr \<lparr>samples = smp, numSamples = numSamples st + 1\<rparr>)"

text \<open>
  Line 77: \<^verbatim>\<open>!bVariableSamplesPerPixel || (samples[0] - samples[i]).Length() > SmallFloat\<close>,
  where \<open>i\<close> is the row of the pixel. The right operand is evaluated only when the left one is
  false.
\<close>

definition needsMoreSamples ::
  "Externals \<Rightarrow> bool \<Rightarrow> Vector3 list \<Rightarrow> nat \<Rightarrow> error + bool" where
  "needsMoreSamples ext bVariable smp i =
     (if \<not> bVariable then Inr True
      else case fetch smp 0 of
             Inl e \<Rightarrow> Inl e
           | Inr a \<Rightarrow>
               (case fetch smp i of
                  Inl e \<Rightarrow> Inl e
                | Inr b \<Rightarrow> Inr (Length (Vector3_sub a b) > SmallFloat ext)))"

text \<open>
  Lines 78 to 81: \<^verbatim>\<open>for (int sampleID = 2; sampleID < numSamples; ++sampleID)\<close>, whose body
  is that of the first loop and so increments \<^verbatim>\<open>numSamples\<close> as well. The loop is written
  for any start; a store outside the accumulator ends it.
\<close>

function extraSamples :: "Vector3 \<Rightarrow> nat \<Rightarrow> PixelState \<Rightarrow> error + PixelState" where
  "extraSamples v sampleID st =
     (if sampleID < numSamples st then
        (if sampleID < length (samples st) then
           extraSamples v (sampleID + 1)
             \<lparr>samples = (samples st)[sampleID := v], numSamples = numSamples st + 1\<rparr>
         else Inl OutOfRange)
      else Inr st)"
  by pat_completeness auto
termination
  by (relation "measure (\<lambda>(v, sampleID, st). length (samples st) - sampleID)") auto

text \<open>Lines 67 to 82 for the pixel in row \<open>i\<close>, where \<open>v\<close> is \<^verbatim>\<open>SamplePixel(camera, i, j)\<close>.\<close>

definition takeSamples ::
  "Externals \<Rightarrow> nat \<Rightarrow> bool \<Rightarrow> Vector3 \<Rightarrow> nat \<Rightarrow> error + PixelState" where
  "takeSamples ext spp bVariable v i =
     (case forEach [0..<2] (takeSample v) (clearSamples spp) of
        Inl e \<Rightarrow> Inl e
      | Inr st \<Rightarrow>
          (case needsMoreSamples ext bVariable (samples st) i of
             Inl e \<Rightarrow> Inl e
           | Inr again \<Rightarrow> if again then extraSamples v 2 st else Inr st))"

text \<open>Lines 84 to 87 and the division of line 91.\<close>

definition sumSamples :: "PixelState \<Rightarrow> error + Vector3" where
  "sumSamples st =
     forEach [0..<numSamples st]
       (\<lambda>sampleID finalColor.
          case fetch (samples st) sampleID of
            Inl e \<Rightarrow> Inl e
          | Inr v \<Rightarrow> Inr (Vector3_add finalColor v))
       (Vector3s 0)"

definition averageSamples :: "PixelState \<Rightarrow> error + Vector3" where
  "averageSamples st =
     (case sumSamples st of
        Inl e \<Rightarrow> Inl e
      | Inr finalColor \<Rightarrow> Inr (Vector3_div finalColor (real (numSamples st))))"

text \<open>
  The body of the two pixel loops: what is sampled and what is committed for the pixel in
  row \<open>i\<close> and column \<open>j\<close>.
\<close>

record PixelResult =
  taken :: nat
  committed :: Color

definition renderPixel ::
  "Externals \<Rightarrow> 'ray Camera \<Rightarrow> 'ray Renderer \<Rightarrow> nat \<Rightarrow> nat \<Rightarrow> error + PixelResult" where
  "renderPixel ext camera r i j =
     (case takeSamples ext (samplesPerPixel r) (bVariableSamplesPerPixel r)
             (SamplePixel ext camera (renderables r) i j) i of
        Inl e \<Rightarrow> Inl e
      | Inr st \<Rightarrow>
          (case averageSamples st of
             Inl e \<Rightarrow> Inl e
           | Inr mean \<Rightarrow> Inr \<lparr>taken = numSamples st, committed = FromVector ext mean\<rparr>))"

definition RenderWorker ::
  "Externals \<Rightarrow> 'ray Camera \<Rightarrow> 'ray Renderer \<Rightarrow> RenderBounds \<Rightarrow> Buffer \<Rightarrow> error + Buffer" where
  "RenderWorker ext camera r renderBounds buffer =
     forEach [unat (minY renderBounds)..<unat (maxY renderBounds)]
       (\<lambda>i. forEach [unat (minX renderBounds)..<unat (maxX renderBounds)]
          (\<lambda>j buf.
             case renderPixel ext camera r i j of
               Inl e \<Rightarrow> Inl e
             | Inr res \<Rightarrow> Inr (SetPix j i (committed res) buf)))
       buffer"

section \<open>Render\<close>

text \<open>Lines 41 to 48, in 32-bit unsigned arithmetic.\<close>

definition tileBounds :: "u32 \<Rightarrow> u32 \<Rightarrow> u32 \<Rightarrow> u32 \<Rightarrow> RenderBounds" where
  "tileBounds width height perRow tileID =
     (let tileY = tileID div perRow;
          tileX = tileID - tileY * perRow;
          minX' = tileX * width div perRow;
          minY' = tileY * height div perRow
      in \<lparr>minX = minX', minY = minY',
          maxX = minX' + width div perRow, maxY = minY' + height div perRow\<rparr>)"

definition tilesNum :: "'ray Renderer \<Rightarrow> u32" where
  "tilesNum r = tilesPerRow r * tilesPerRow r"

text \<open>The \<^verbatim>\<open>renderBounds\<close> that the loop body computes for \<open>tileID\<close>.\<close>

definition tileOf :: "'ray Renderer \<Rightarrow> nat \<Rightarrow> RenderBounds" where
  "tileOf r tileID =
     tileBounds (sizeX (colorBuffer r)) (sizeY (colorBuffer r)) (tilesPerRow r) (of_nat tileID)"

definition renderTiles ::
  "Externals \<Rightarrow> 'ray Camera \<Rightarrow> 'ray Renderer \<Rightarrow> nat list \<Rightarrow> Buffer \<Rightarrow> error + Buffer" where
  "renderTiles ext camera r tiles buffer =
     forEach tiles (\<lambda>tileID. RenderWorker ext camera r (tileOf r tileID)) buffer"

text \<open>
  \<open>Render\<close> fills the buffer and runs the loop body for every \<open>tileID\<close> below \<open>tilesNum\<close>.
  The loop is an OpenMP parallel loop, so the order of its iterations is not fixed:
  \<open>RenderScheduled\<close> takes the order as the list \<open>tiles\<close>, and \<open>Render\<close> is the order of the
  text of the source. The counter is an \<^verbatim>\<open>int\<close> that is compared with the unsigned \<open>tilesNum\<close>;
  it would overflow if \<open>tilesNum\<close> did not fit an \<^verbatim>\<open>int\<close>.
\<close>

definition RenderScheduled ::
  "Externals \<Rightarrow> 'ray Camera \<Rightarrow> 'ray Renderer \<Rightarrow> nat list \<Rightarrow> error + 'ray Renderer" where
  "RenderScheduled ext camera r tiles =
     (if 2 ^ 31 \<le> unat (tilesNum r) then Inl IntOverflow
      else case renderTiles ext camera r tiles (FillColor 4278190080 (colorBuffer r)) of
             Inl e \<Rightarrow> Inl e
           | Inr buffer \<Rightarrow> Inr (r\<lparr>colorBuffer := buffer\<rparr>))"

definition Render :: "Externals \<Rightarrow> 'ray Camera \<Rightarrow> 'ray Renderer \<Rightarrow> error + 'ray Renderer" where
  "Render ext camera r = RenderScheduled ext camera r [0..<unat (tilesNum r)]"

text \<open>The pixels the loops of \<open>RenderWorker\<close> visit for given bounds.\<close>

definition inBounds :: "RenderBounds \<Rightarrow> nat \<Rightarrow> nat \<Rightarrow> bool" where
  "inBounds b x y \<longleftrightarrow>
     unat (minX b) \<le> x \<and> x < unat (maxX b) \<and> unat (minY b) \<le> y \<and> y < unat (maxY b)"

section \<open>The same code without checked indexing\<close>

text \<open>
  C++ gives a read of \<^verbatim>\<open>samples[k]\<close> past the end of the vector no meaning, and the
  definitions above stop there, as a build with container assertions or an address sanitizer
  does. A build without such checks does not stop: \<^verbatim>\<open>operator[]\<close> reads the vector that lies
  \<open>k\<close> places after the start of the storage, whatever it holds, and the pixel is evaluated
  to its end. The definitions of this section are the same code for such a build. They differ
  from the ones above in one place only, the reads of the accumulator: what lies past its end
  is a parameter \<open>past\<close>, by index. Nothing is assumed about its contents; that the memory
  can be read is taken for granted. A store past the end still stops the evaluation, since it
  overwrites memory that is not the accumulator's, and so does the overflow of the \<^verbatim>\<open>int\<close>
  counter. Where the definitions above return a result, these return the same one
  (\<open>renderPixel_unchecked_extends\<close>, \<open>RenderScheduled_unchecked_extends\<close>).
\<close>

definition fetch_unchecked :: "(nat \<Rightarrow> Vector3) \<Rightarrow> Vector3 list \<Rightarrow> nat \<Rightarrow> Vector3" where
  "fetch_unchecked past smp k = (if k < length smp then smp ! k else past k)"

text \<open>Line 77.\<close>

definition needsMoreSamples_unchecked ::
  "Externals \<Rightarrow> bool \<Rightarrow> (nat \<Rightarrow> Vector3) \<Rightarrow> Vector3 list \<Rightarrow> nat \<Rightarrow> bool" where
  "needsMoreSamples_unchecked ext bVariable past smp i =
     (if \<not> bVariable then True
      else Length (Vector3_sub (fetch_unchecked past smp 0) (fetch_unchecked past smp i))
             > SmallFloat ext)"

text \<open>Lines 67 to 82.\<close>

definition takeSamples_unchecked ::
  "Externals \<Rightarrow> nat \<Rightarrow> bool \<Rightarrow> (nat \<Rightarrow> Vector3) \<Rightarrow> Vector3 \<Rightarrow> nat \<Rightarrow> error + PixelState" where
  "takeSamples_unchecked ext spp bVariable past v i =
     (case forEach [0..<2] (takeSample v) (clearSamples spp) of
        Inl e \<Rightarrow> Inl e
      | Inr st \<Rightarrow>
          if needsMoreSamples_unchecked ext bVariable past (samples st) i
          then extraSamples v 2 st else Inr st)"

text \<open>Lines 84 to 87 and the division of line 91.\<close>

definition averageSamples_unchecked :: "(nat \<Rightarrow> Vector3) \<Rightarrow> PixelState \<Rightarrow> Vector3" where
  "averageSamples_unchecked past st =
     Vector3_div
       (foldl (\<lambda>finalColor sampleID.
                 Vector3_add finalColor (fetch_unchecked past (samples st) sampleID))
          (Vector3s 0) [0..<numSamples st])
       (real (numSamples st))"

definition renderPixel_unchecked ::
  "(nat \<Rightarrow> Vector3) \<Rightarrow> Externals \<Rightarrow> 'ray Camera \<Rightarrow> 'ray Renderer \<Rightarrow> nat \<Rightarrow> nat \<Rightarrow>
   error + PixelResult" where
  "renderPixel_unchecked past ext camera r i j =
     (case takeSamples_unchecked ext (samplesPerPixel r) (bVariableSamplesPerPixel r) past
             (SamplePixel ext camera (renderables r) i j) i of
        Inl e \<Rightarrow> Inl e
      | Inr st \<Rightarrow>
          Inr \<lparr>taken = numSamples st,
               committed = FromVector ext (averageSamples_unchecked past st)\<rparr>)"

text \<open>
  For a whole pass, \<open>past i j\<close> is what lies past the accumulator while the pixel in row \<open>i\<close>
  and column \<open>j\<close> is evaluated.
\<close>

definition RenderWorker_unchecked ::
  "(nat \<Rightarrow> nat \<Rightarrow> nat \<Rightarrow> Vector3) \<Rightarrow> Externals \<Rightarrow> 'ray Camera \<Rightarrow> 'ray Renderer \<Rightarrow>
   RenderBounds \<Rightarrow> Buffer \<Rightarrow> error + Buffer" where
  "RenderWorker_unchecked past ext camera r renderBounds buffer =
     forEach [unat (minY renderBounds)..<unat (maxY renderBounds)]
       (\<lambda>i. forEach [unat (minX renderBounds)..<unat (maxX renderBounds)]
          (\<lambda>j buf.
             case renderPixel_unchecked (past i j) ext camera r i j of
               Inl e \<Rightarrow> Inl e
             | Inr res \<Rightarrow> Inr (SetPix j i (committed res) buf)))
       buffer"

definition renderTiles_unchecked ::
  "(nat \<Rightarrow> nat \<Rightarrow> nat \<Rightarrow> Vector3) \<Rightarrow> Externals \<Rightarrow> 'ray Camera \<Rightarrow> 'ray Renderer \<Rightarrow>
   nat list \<Rightarrow> Buffer \<Rightarrow> error + Buffer" where
  "renderTiles_unchecked past ext camera r tiles buffer =
     forEach tiles (\<lambda>tileID. RenderWorker_unchecked past ext camera r (tileOf r tileID)) buffer"

definition RenderScheduled_unchecked ::
  "(nat \<Rightarrow> nat \<Rightarrow> nat \<Rightarrow> Vector3) \<Rightarrow> Externals \<Rightarrow> 'ray Camera \<Rightarrow> 'ray Renderer \<Rightarrow>
   nat list \<Rightarrow> error + 'ray Renderer" where
  "RenderScheduled_unchecked past ext camera r tiles =
     (if 2 ^ 31 \<le> unat (tilesNum r) then Inl IntOverflow
      else case renderTiles_unchecked past ext camera r tiles
                  (FillColor 4278190080 (colorBuffer r)) of
             Inl e \<Rightarrow> Inl e
           | Inr buffer \<Rightarrow> Inr (r\<lparr>colorBuffer := buffer\<rparr>))"

definition Render_unchecked ::
  "(nat \<Rightarrow> nat \<Rightarrow> nat \<Rightarrow> Vector3) \<Rightarrow> Externals \<Rightarrow> 'ray Camera \<Rightarrow> 'ray Renderer \<Rightarrow>
   error + 'ray Renderer" where
  "Render_unchecked past ext camera r =
     RenderScheduled_unchecked past ext camera r [0..<unat (tilesNum r)]"

section \<open>Notions used to state the properties\<close>

text \<open>The hits that the objects report for a ray, in the order of \<^verbatim>\<open>renderables\<close>.\<close>

definition reportedHits :: "'ray \<Rightarrow> 'ray Renderable list \<Rightarrow> RenderHitInfo list" where
  "reportedHits ray rs = List.map_filter (\<lambda>renderable. renderable ray) rs"

definition meanOfTwo :: "Vector3 \<Rightarrow> Vector3 \<Rightarrow> Vector3" where
  "meanOfTwo a b = Vector3_div (Vector3_add a b) 2"

text \<open>
  The rows whose pixels cannot be evaluated: the accumulator is too short for the two
  initial samples, or line 77 reads \<^verbatim>\<open>samples[i]\<close> outside it.
\<close>

definition pixelFails :: "'ray Renderer \<Rightarrow> nat \<Rightarrow> bool" where
  "pixelFails r i \<longleftrightarrow>
     samplesPerPixel r < 2 \<or> (bVariableSamplesPerPixel r \<and> samplesPerPixel r \<le> i)"

definition pixelColor ::
  "Externals \<Rightarrow> 'ray Camera \<Rightarrow> 'ray Renderer \<Rightarrow> nat \<Rightarrow> nat \<Rightarrow> Color" where
  "pixelColor ext camera r x y =
     (let v = SamplePixel ext camera (renderables r) y x in FromVector ext (meanOfTwo v v))"

text \<open>The buffer with the pixels of \<open>P\<close> set to their colour \<open>col\<close>.\<close>

definition paint :: "(nat \<Rightarrow> nat \<Rightarrow> Color) \<Rightarrow> (nat \<Rightarrow> nat \<Rightarrow> bool) \<Rightarrow> Buffer \<Rightarrow> Buffer" where
  "paint col P buffer = buffer\<lparr>pix := (\<lambda>x y. if P x y then col x y else pix buffer x y)\<rparr>"

text \<open>
  Modelled from the spec: \<^verbatim>\<open>Color::FromVector\<close> is not among the sources. The spec says of
  it that the zero vector is black, the background colour \<open>0xff000000\<close> that \<open>Render\<close> fills
  the buffer with.
\<close>

definition blackIsBackground :: "Externals \<Rightarrow> bool" where
  "blackIsBackground ext \<longleftrightarrow> FromVector ext (Vector3 0 0 0) = 4278190080"

text \<open>Concrete collaborators, for evaluating the model.\<close>

definition demoExternals :: Externals where
  "demoExternals =
     \<lparr>SmallFloat = 1 / 10000,
      SmallNumber = 1 / 100000000,
      ToVector = (\<lambda>c. Vector3 1 1 1),
      FromVector = (\<lambda>v. if v = Vector3 0 0 0 then 4278190080 else 4294967295)\<rparr>"

definition demoCamera :: "unit Camera" where
  "demoCamera = (\<lambda>x y. ())"

text \<open>Some contents of the memory past the accumulator.\<close>

definition demoPast :: "nat \<Rightarrow> nat \<Rightarrow> nat \<Rightarrow> Vector3" where
  "demoPast i j k = Vector3 (real i) (real j) (real k)"

definition demoHit :: "real \<Rightarrow> RenderHitInfo" where
  "demoHit d = \<lparr>distance = d, normal = Vector3 0 0 1, material = \<lparr>color = 0\<rparr>\<rparr>"

section \<open>Auxiliary facts\<close>

lemma closestOf_foldl:
  "closestOf ray rs st = foldl considerHit st (reportedHits ray rs)"
  by (induction rs arbitrary: st) (auto simp: reportedHits_def map_filter_simps split: option.splits)

lemma closestOf_no_hit:
  "\<forall>renderable\<in>set rs. renderable ray = None \<Longrightarrow> closestOf ray rs st = st"
  by (induction rs arbitrary: st) auto

lemma foldl_considerHit_None:
  "foldl considerHit None hs = None \<Longrightarrow> h \<in> set hs \<Longrightarrow> FLT_MAX \<le> distance h"
proof (induction hs rule: rev_induct)
  case Nil
  then show ?case by simp
next
  case (snoc a hs)
  from snoc.prems(1) have step: "considerHit (foldl considerHit None hs) a = None" by simp
  then have prev: "foldl considerHit None hs = None"
    by (cases "foldl considerHit None hs") (simp_all add: considerHit_def split: if_splits)
  with step have "FLT_MAX \<le> distance a"
    by (simp add: considerHit_def closestDistance_def split: if_splits)
  then show ?case using snoc.IH [OF prev] snoc.prems(2) by auto
qed

lemma foldl_considerHit_Some:
  "foldl considerHit None hs = Some h \<Longrightarrow>
     distance h < FLT_MAX \<and>
     (\<exists>pre post. hs = pre @ h # post \<and>
        (\<forall>p\<in>set pre. distance h < distance p) \<and> (\<forall>q\<in>set post. distance h \<le> distance q))"
proof (induction hs arbitrary: h rule: rev_induct)
  case Nil
  then show ?case by simp
next
  case (snoc a hs)
  from snoc.prems have step: "considerHit (foldl considerHit None hs) a = Some h" by simp
  show ?case
  proof (cases "foldl considerHit None hs")
    case None
    with step have "considerHit None a = Some h" by simp
    then have a: "h = a" "distance a < FLT_MAX"
      by (auto simp: considerHit_def closestDistance_def split: if_splits)
    have "\<forall>p\<in>set hs. distance h < distance p"
      using foldl_considerHit_None [OF None] a by fastforce
    then have "hs @ [a] = hs @ h # [] \<and> (\<forall>p\<in>set hs. distance h < distance p) \<and>
               (\<forall>q\<in>set []. distance h \<le> distance q)"
      using a by simp
    then show ?thesis using a by blast
  next
    case (Some b)
    from snoc.IH [OF Some] obtain pre post where
      b: "distance b < FLT_MAX" "hs = pre @ b # post"
         "\<forall>p\<in>set pre. distance b < distance p" "\<forall>q\<in>set post. distance b \<le> distance q"
      by blast
    show ?thesis
    proof (cases "distance a < distance b")
      case True
      with step Some have h: "h = a"
        by (simp add: considerHit_def closestDistance_def)
      have "\<forall>p\<in>set hs. distance h < distance p"
        using b True h by fastforce
      then have "hs @ [a] = hs @ h # [] \<and> (\<forall>p\<in>set hs. distance h < distance p) \<and>
               (\<forall>q\<in>set []. distance h \<le> distance q)"
        using h by simp
      moreover have "distance h < FLT_MAX" using h True b(1) by simp
      ultimately show ?thesis by blast
    next
      case False
      with step Some have h: "h = b"
        by (simp add: considerHit_def closestDistance_def)
      have "hs @ [a] = pre @ h # (post @ [a]) \<and> (\<forall>p\<in>set pre. distance h < distance p) \<and>
               (\<forall>q\<in>set (post @ [a]). distance h \<le> distance q)"
        using b False h by auto
      then show ?thesis using b(1) h by blast
    qed
  qed
qed



lemma upt_two: "[0..<2] = [0, Suc 0]"
  by (simp add: upt_rec numeral_2_eq_2)

lemma initial_samples:
  "forEach [0..<2] (takeSample v) (clearSamples spp) =
     (if 2 \<le> spp then Inr \<lparr>samples = (replicate spp (Vector3s 0))[0 := v, 1 := v], numSamples = 2\<rparr>
      else Inl OutOfRange)"
  by (auto simp: upt_two takeSample_def store_def clearSamples_def)

lemma extraSamples_stop: "\<not> sampleID < numSamples st \<Longrightarrow> extraSamples v sampleID st = Inr st"
  by (subst extraSamples.simps) simp

lemma takeSamples_eq:
  "takeSamples ext spp bVariable v i =
     (if spp < 2 \<or> (bVariable \<and> spp \<le> i) then Inl OutOfRange
      else Inr \<lparr>samples = (replicate spp (Vector3s 0))[0 := v, 1 := v], numSamples = 2\<rparr>)"
  by (auto simp: takeSamples_def initial_samples needsMoreSamples_def fetch_def extraSamples_stop)

lemma Length_self: "Length (Vector3_sub v v) = 0"
  by (simp add: Length_def Vector3_sub_def)

lemma Vector3_sub_zero: "Vector3_sub v (Vector3s 0) = v"
  by (cases v) (simp add: Vector3_sub_def Vector3s_def)

lemma needsMoreSamples_by_row:
  assumes "2 \<le> spp"
  shows "needsMoreSamples ext True ((replicate spp (Vector3s 0))[0 := v, 1 := v]) i =
           (if i < 2 then Inr (0 > SmallFloat ext)
            else if i < spp then Inr (Length v > SmallFloat ext)
            else Inl OutOfRange)"
proof -
  let ?smp = "(replicate spp (Vector3s 0))[0 := v, 1 := v]"
  have f0: "fetch ?smp 0 = Inr v"
    using assms by (simp add: fetch_def nth_list_update)
  have fi: "fetch ?smp i =
      (if i < spp then Inr (if i < 2 then v else Vector3s 0) else Inl OutOfRange)"
    using assms by (auto simp: fetch_def nth_list_update)
  show ?thesis
    unfolding needsMoreSamples_def f0 fi
    using assms by (auto simp: Length_self Vector3_sub_zero)
qed

lemma Vector3_add_zero: "Vector3_add (Vector3s 0) v = v"
  by (cases v) (simp add: Vector3_add_def Vector3s_def)

lemma averageSamples_two:
  "2 \<le> length smp \<Longrightarrow>
   averageSamples \<lparr>samples = smp, numSamples = 2\<rparr> = Inr (meanOfTwo (smp ! 0) (smp ! 1))"
  by (auto simp: averageSamples_def sumSamples_def upt_two fetch_def meanOfTwo_def Vector3_add_zero)

lemma renderPixel_eq:
  "renderPixel ext camera r i j =
     (if pixelFails r i then Inl OutOfRange
      else Inr \<lparr>taken = 2, committed = pixelColor ext camera r j i\<rparr>)"
  by (auto simp: renderPixel_def takeSamples_eq averageSamples_two pixelFails_def pixelColor_def Let_def)

lemma paint_none: "paint col (\<lambda>x y. False) s = s"
  by (simp add: paint_def)

lemma paint_paint:
  "paint col P (paint col Q s) = paint col (\<lambda>x y. Q x y \<or> P x y) s"
  by (auto simp: paint_def fun_eq_iff)

lemma SetPix_paint: "SetPix j i (col j i) s = paint col (\<lambda>x y. x = j \<and> y = i) s"
  by (auto simp: SetPix_def paint_def fun_eq_iff)

lemma forEach_paint:
  assumes "\<And>a s. a \<in> set as \<Longrightarrow>
             body a s = (if bad a then Inl OutOfRange else Inr (paint col (Q a) s))"
  shows "forEach as body s =
           (if \<exists>a\<in>set as. bad a then Inl OutOfRange
            else Inr (paint col (\<lambda>x y. \<exists>a\<in>set as. Q a x y) s))"
  using assms
proof (induction as arbitrary: s)
  case Nil
  then show ?case by (simp add: paint_none)
next
  case (Cons a as)
  have body: "body a s = (if bad a then Inl OutOfRange else Inr (paint col (Q a) s))"
    using Cons.prems by simp
  have rest: "\<And>s'. forEach as body s' =
           (if \<exists>a\<in>set as. bad a then Inl OutOfRange
            else Inr (paint col (\<lambda>x y. \<exists>a\<in>set as. Q a x y) s'))"
    using Cons.IH Cons.prems by simp
  have "(\<lambda>x y. Q a x y \<or> (\<exists>a\<in>set as. Q a x y)) = (\<lambda>x y. \<exists>b\<in>set (a # as). Q b x y)"
    by (auto simp: fun_eq_iff)
  then show ?case
    by (simp add: body rest paint_paint)
qed

lemma row_paint:
  "forEach js
     (\<lambda>j buf. case renderPixel ext camera r i j of
                 Inl e \<Rightarrow> Inl e
               | Inr res \<Rightarrow> Inr (SetPix j i (committed res) buf)) s =
   (if js \<noteq> [] \<and> pixelFails r i then Inl OutOfRange
    else Inr (paint (pixelColor ext camera r) (\<lambda>x y. x \<in> set js \<and> y = i) s))"
proof -
  let ?body = "\<lambda>j buf. case renderPixel ext camera r i j of
                 Inl e \<Rightarrow> Inl e
               | Inr res \<Rightarrow> Inr (SetPix j i (committed res) buf)"
  have "forEach js ?body s =
      (if \<exists>j\<in>set js. pixelFails r i then Inl OutOfRange
       else Inr (paint (pixelColor ext camera r) (\<lambda>x y. \<exists>j\<in>set js. x = j \<and> y = i) s))"
    by (rule forEach_paint) (simp add: renderPixel_eq SetPix_paint)
  moreover have "(\<exists>j\<in>set js. pixelFails r i) \<longleftrightarrow> js \<noteq> [] \<and> pixelFails r i"
    by (cases js) auto
  moreover have "(\<lambda>x y. \<exists>j\<in>set js. x = j \<and> y = i) = (\<lambda>x y. x \<in> set js \<and> y = i)"
    by (auto simp: fun_eq_iff)
  ultimately show ?thesis by (simp only:)
qed

lemma rows_paint:
  "forEach is
     (\<lambda>i. forEach js
        (\<lambda>j buf. case renderPixel ext camera r i j of
                    Inl e \<Rightarrow> Inl e
                  | Inr res \<Rightarrow> Inr (SetPix j i (committed res) buf))) s =
   (if \<exists>i\<in>set is. js \<noteq> [] \<and> pixelFails r i then Inl OutOfRange
    else Inr (paint (pixelColor ext camera r) (\<lambda>x y. x \<in> set js \<and> y \<in> set is) s))"
proof -
  let ?inner = "\<lambda>i. forEach js
        (\<lambda>j buf. case renderPixel ext camera r i j of
                    Inl e \<Rightarrow> Inl e
                  | Inr res \<Rightarrow> Inr (SetPix j i (committed res) buf))"
  have "forEach is ?inner s =
     (if \<exists>i\<in>set is. js \<noteq> [] \<and> pixelFails r i then Inl OutOfRange
      else Inr (paint (pixelColor ext camera r) (\<lambda>x y. \<exists>i\<in>set is. x \<in> set js \<and> y = i) s))"
    by (rule forEach_paint) (rule row_paint)
  moreover have "(\<lambda>x y. \<exists>i\<in>set is. x \<in> set js \<and> y = i) = (\<lambda>x y. x \<in> set js \<and> y \<in> set is)"
    by (auto simp: fun_eq_iff)
  ultimately show ?thesis by (simp only:)
qed

lemma RenderWorker_eq:
  "RenderWorker ext camera r b buffer =
     (if \<exists>x y. inBounds b x y \<and> pixelFails r y then Inl OutOfRange
      else Inr (paint (pixelColor ext camera r) (inBounds b) buffer))"
proof -
  let ?js = "[unat (minX b)..<unat (maxX b)]"
  let ?is = "[unat (minY b)..<unat (maxY b)]"
  have "(\<exists>i\<in>set ?is. ?js \<noteq> [] \<and> pixelFails r i) \<longleftrightarrow>
                 (\<exists>x y. inBounds b x y \<and> pixelFails r y)"
  proof
    assume "\<exists>i\<in>set ?is. ?js \<noteq> [] \<and> pixelFails r i"
    then obtain i where "unat (minY b) \<le> i" "i < unat (maxY b)"
      "unat (minX b) < unat (maxX b)" "pixelFails r i"
      by auto
    then have "inBounds b (unat (minX b)) i \<and> pixelFails r i"
      by (simp add: inBounds_def)
    then show "\<exists>x y. inBounds b x y \<and> pixelFails r y" by blast
  next
    assume "\<exists>x y. inBounds b x y \<and> pixelFails r y"
    then show "\<exists>i\<in>set ?is. ?js \<noteq> [] \<and> pixelFails r i"
      by (auto simp: inBounds_def)
  qed
  moreover have "(\<lambda>x y. x \<in> set ?js \<and> y \<in> set ?is) = inBounds b"
    by (auto simp: inBounds_def fun_eq_iff)
  ultimately show ?thesis
    unfolding RenderWorker_def rows_paint by (simp only:)
qed

lemma renderTiles_eq:
  "renderTiles ext camera r tiles buffer =
     (if \<exists>t\<in>set tiles. \<exists>x y. inBounds (tileOf r t) x y \<and> pixelFails r y
      then Inl OutOfRange
      else Inr (paint (pixelColor ext camera r)
                 (\<lambda>x y. \<exists>t\<in>set tiles. inBounds (tileOf r t) x y) buffer))"
  unfolding renderTiles_def by (rule forEach_paint) (rule RenderWorker_eq)

lemma RenderScheduled_eq:
  "RenderScheduled ext camera r tiles =
     (if 2 ^ 31 \<le> unat (tilesNum r) then Inl IntOverflow
      else if \<exists>t\<in>set tiles. \<exists>x y. inBounds (tileOf r t) x y \<and> pixelFails r y
      then Inl OutOfRange
      else Inr (r\<lparr>colorBuffer :=
                  paint (pixelColor ext camera r)
                    (\<lambda>x y. \<exists>t\<in>set tiles. inBounds (tileOf r t) x y)
                    (FillColor 4278190080 (colorBuffer r))\<rparr>))"
  by (auto simp: RenderScheduled_def renderTiles_eq)

lemma RenderScheduled_order:
  "set tiles = set tiles' \<Longrightarrow>
   RenderScheduled ext camera r tiles = RenderScheduled ext camera r tiles'"
  by (simp only: RenderScheduled_eq)

lemma SamplePixel_no_hit:
  "\<forall>renderable\<in>set rs. renderable (camera x y) = None \<Longrightarrow>
   SamplePixel ext camera rs y x = Vector3 0 0 0"
  by (simp add: SamplePixel_def closestOf_no_hit Vector3s_def)

lemma meanOfTwo_zero: "meanOfTwo (Vector3 0 0 0) (Vector3 0 0 0) = Vector3 0 0 0"
  by (simp add: meanOfTwo_def Vector3_add_def Vector3_div_def)

lemma pixelColor_empty:
  "renderables r = [] \<Longrightarrow> blackIsBackground ext \<Longrightarrow> pixelColor ext camera r x y = 4278190080"
  by (simp add: pixelColor_def SamplePixel_no_hit meanOfTwo_zero blackIsBackground_def)

lemma strip_unique:
  fixes a w x :: nat
  assumes "a * w \<le> x" "x < a * w + w"
  shows "a = x div w"
proof -
  have "0 < w" using assms by (cases w) auto
  have "x div w = a"
    by (rule div_nat_eqI) (use assms in \<open>simp_all add: mult.commute\<close>)
  then show ?thesis by simp
qed

lemma strip_exists:
  fixes w x :: nat
  assumes "0 < w"
  shows "(x div w) * w \<le> x \<and> x < (x div w) * w + w"
  using assms
  by (metis add.commute div_mult_mod_eq le_add1 mod_less_divisor nat_add_left_cancel_less)

lemma nat_tiles:
  fixes k W H x y :: nat
  assumes k: "0 < k" and W: "k dvd W" and H: "k dvd H" and x: "x < W" and y: "y < H"
  shows "\<exists>!t. t < k * k \<and>
           (t mod k) * (W div k) \<le> x \<and> x < (t mod k) * (W div k) + W div k \<and>
           (t div k) * (H div k) \<le> y \<and> y < (t div k) * (H div k) + H div k"
proof -
  define w where "w = W div k"
  define h where "h = H div k"
  have Wk: "W = k * w" and Hk: "H = k * h"
    using W H by (simp_all add: w_def h_def)
  have w0: "0 < w" using x Wk by (cases w) auto
  have h0: "0 < h" using y Hk by (cases h) auto
  have tx: "x div w < k" using x Wk w0
    by (simp add: less_mult_imp_div_less mult.commute)
  have ty: "y div h < k" using y Hk h0
    by (simp add: less_mult_imp_div_less mult.commute)
  let ?t = "(y div h) * k + x div w"
  have tm: "?t mod k = x div w" using tx by simp
  have td: "?t div k = y div h" using tx k by simp
  have tlt: "?t < k * k"
  proof -
    have "?t < (y div h) * k + k" using tx by simp
    also have "\<dots> = (Suc (y div h)) * k" by simp
    also have "\<dots> \<le> k * k" using ty by (metis Suc_leI mult_le_mono1)
    finally show ?thesis .
  qed
  show ?thesis
  proof (rule ex1I [of _ ?t])
    show "?t < k * k \<and>
           (?t mod k) * (W div k) \<le> x \<and> x < (?t mod k) * (W div k) + W div k \<and>
           (?t div k) * (H div k) \<le> y \<and> y < (?t div k) * (H div k) + H div k"
      unfolding tm td w_def [symmetric] h_def [symmetric]
      using tlt strip_exists [OF w0, of x] strip_exists [OF h0, of y] by simp
  next
    fix t
    assume t: "t < k * k \<and>
           (t mod k) * (W div k) \<le> x \<and> x < (t mod k) * (W div k) + W div k \<and>
           (t div k) * (H div k) \<le> y \<and> y < (t div k) * (H div k) + H div k"
    then have "t mod k = x div w" "t div k = y div h"
      unfolding w_def [symmetric] h_def [symmetric]
      by (auto intro: strip_unique)
    then have "t = (y div h) * k + x div w"
      by (metis div_mult_mod_eq)
    then show "t = ?t" .
  qed
qed



lemma tile_edge_unat:
  fixes k W a :: u32
  assumes k: "k \<noteq> 0"
    and fit: "(unat k - 1) * unat W < 2 ^ 32"
    and dv: "unat k dvd unat W"
    and a: "unat a < unat k"
  shows "unat (a * W div k) = unat a * (unat W div unat k)"
    and "unat (a * W div k + W div k) = unat a * (unat W div unat k) + unat W div unat k"
proof -
  have k0: "0 < unat k" using k by (simp add: unat_gt_0)
  have "unat a \<le> unat k - 1" using a by simp
  then have "unat a * unat W \<le> (unat k - 1) * unat W"
    by (rule mult_le_mono1)
  also have "\<dots> < 2 ^ LENGTH(32)" using fit by simp
  finally have "unat a * unat W < 2 ^ LENGTH(32)" .
  then have m: "unat (a * W) = unat a * unat W"
    by (simp only: unat_mult_lem)
  obtain w where w: "unat W = unat k * w" using dv by (auto simp: dvd_def)
  have wd: "unat W div unat k = w" using w k0 by simp
  show e1: "unat (a * W div k) = unat a * (unat W div unat k)"
    using k0 by (simp add: unat_div m w)
  have "unat a * w + w \<le> unat k * w"
  proof -
    have "unat a * w + w = Suc (unat a) * w" by simp
    also have "\<dots> \<le> unat k * w" using a by (intro mult_le_mono1) simp
    finally show ?thesis .
  qed
  then have "unat a * w + w \<le> unat W" using w by simp
  moreover have "unat W < 2 ^ LENGTH(32)" by (rule unsigned_less)
  ultimately have lt: "unat a * w + w < 2 ^ LENGTH(32)" by simp
  have wk: "unat (W div k) = w" by (simp add: unat_div wd)
  have e1': "unat (a * W div k) = unat a * w" using e1 wd by simp
  have "unat (a * W div k) + unat (W div k) < 2 ^ LENGTH(32)"
    unfolding e1' wk by (rule lt)
  then have "unat (a * W div k + W div k) = unat (a * W div k) + unat (W div k)"
    by (simp only: unat_add_lem)
  then show "unat (a * W div k + W div k) = unat a * (unat W div unat k) + unat W div unat k"
    unfolding e1' wk wd .
qed

lemma inBounds_tileBounds:
  fixes k W H t :: u32
  assumes k: "k \<noteq> 0"
    and fitW: "(unat k - 1) * unat W < 2 ^ 32" and fitH: "(unat k - 1) * unat H < 2 ^ 32"
    and dvW: "unat k dvd unat W" and dvH: "unat k dvd unat H"
    and t: "unat t div unat k < unat k"
  shows "inBounds (tileBounds W H k t) x y \<longleftrightarrow>
           (unat t mod unat k) * (unat W div unat k) \<le> x \<and>
           x < (unat t mod unat k) * (unat W div unat k) + unat W div unat k \<and>
           (unat t div unat k) * (unat H div unat k) \<le> y \<and>
           y < (unat t div unat k) * (unat H div unat k) + unat H div unat k"
proof -
  have k0: "0 < unat k" using k by (simp add: unat_gt_0)
  have ax: "unat (t mod k) < unat k" using k0 by (simp add: unat_mod)
  have ay: "unat (t div k) < unat k" using t by (simp add: unat_div)
  note X = tile_edge_unat [OF k fitW dvW ax]
  note Y = tile_edge_unat [OF k fitH dvH ay]
  have "inBounds (tileBounds W H k t) x y \<longleftrightarrow>
           unat (t mod k) * (unat W div unat k) \<le> x \<and>
           x < unat (t mod k) * (unat W div unat k) + unat W div unat k \<and>
           unat (t div k) * (unat H div unat k) \<le> y \<and>
           y < unat (t div k) * (unat H div unat k) + unat H div unat k"
    by (simp add: inBounds_def tileBounds_def Let_def minus_div_mult_eq_mod X Y)
  then show ?thesis
    by (simp add: unat_mod unat_div)
qed


lemma tile_within_image:
  fixes k W H t :: u32
  assumes k: "k \<noteq> 0"
    and fitW: "(unat k - 1) * unat W < 2 ^ 32" and fitH: "(unat k - 1) * unat H < 2 ^ 32"
    and dvW: "unat k dvd unat W" and dvH: "unat k dvd unat H"
    and t: "unat t div unat k < unat k"
    and inb: "inBounds (tileBounds W H k t) x y"
  shows "x < unat W \<and> y < unat H"
proof -
  have k0: "0 < unat k" using k by (simp add: unat_gt_0)
  have edge: "a * (n div unat k) + n div unat k \<le> n" if "a < unat k" "unat k dvd n" for a n
  proof -
    have "a * (n div unat k) + n div unat k = Suc a * (n div unat k)" by simp
    also have "\<dots> \<le> unat k * (n div unat k)" using that(1) by (intro mult_le_mono1) simp
    also have "\<dots> = n" using that(2) by simp
    finally show ?thesis .
  qed
  from inb have
    x: "x < (unat t mod unat k) * (unat W div unat k) + unat W div unat k" and
    y: "y < (unat t div unat k) * (unat H div unat k) + unat H div unat k"
    by (simp_all add: inBounds_tileBounds [OF k fitW fitH dvW dvH t])
  have "unat t mod unat k < unat k" using k0 by simp
  from edge [OF this dvW] edge [OF t dvH] x y show ?thesis by simp
qed

lemma unat_tile_id: "t < 2 ^ 32 \<Longrightarrow> unat (of_nat t :: u32) = t"
  by (simp add: unat_of_nat)

lemma Render_default_64_out_of_range:
  "Render ext camera (Renderer_new 64 64) = Inl OutOfRange"
proof -
  let ?r = "Renderer_new 64 64 :: 'a Renderer"
  have num: "unat (tilesNum ?r) = 64"
    by (simp add: tilesNum_def Renderer_new_def)
  have "inBounds (tileOf ?r 8) 0 8 \<and> pixelFails ?r 8"
    by (simp add: tileOf_def tileBounds_def inBounds_def pixelFails_def Renderer_new_def)
  then have "\<exists>t\<in>set [0..<64]. \<exists>x y. inBounds (tileOf ?r t) x y \<and> pixelFails ?r y"
    by (intro bexI [of _ 8]) auto
  then show ?thesis
    by (simp add: Render_def RenderScheduled_eq num)
qed

lemma needsMoreSamples_unchecked_in_range:
  "needsMoreSamples ext bVariable smp i = Inr b \<Longrightarrow>
   needsMoreSamples_unchecked ext bVariable past smp i = b"
  by (auto simp: needsMoreSamples_def needsMoreSamples_unchecked_def fetch_def fetch_unchecked_def
      split: if_splits)

lemma takeSamples_unchecked_eq:
  "takeSamples_unchecked ext spp bVariable past v i =
     (if spp < 2 then Inl OutOfRange
      else Inr \<lparr>samples = (replicate spp (Vector3s 0))[0 := v, 1 := v], numSamples = 2\<rparr>)"
  by (auto simp: takeSamples_unchecked_def initial_samples extraSamples_stop)

lemma averageSamples_unchecked_two:
  "2 \<le> length smp \<Longrightarrow>
   averageSamples_unchecked past \<lparr>samples = smp, numSamples = 2\<rparr> =
     meanOfTwo (smp ! 0) (smp ! 1)"
  by (auto simp: averageSamples_unchecked_def upt_two fetch_unchecked_def meanOfTwo_def
      Vector3_add_zero)

lemma renderPixel_unchecked_eq:
  "renderPixel_unchecked past ext camera r i j =
     (if samplesPerPixel r < 2 then Inl OutOfRange
      else Inr \<lparr>taken = 2, committed = pixelColor ext camera r j i\<rparr>)"
  by (auto simp: renderPixel_unchecked_def takeSamples_unchecked_eq averageSamples_unchecked_two
      pixelColor_def Let_def)

lemma renderPixel_unchecked_extends:
  "renderPixel ext camera r i j = Inr res \<Longrightarrow>
   renderPixel_unchecked past ext camera r i j = Inr res"
  by (auto simp: renderPixel_eq renderPixel_unchecked_eq pixelFails_def split: if_splits)

lemma row_paint_unchecked:
  "forEach js
     (\<lambda>j buf. case renderPixel_unchecked (past i j) ext camera r i j of
                 Inl e \<Rightarrow> Inl e
               | Inr res \<Rightarrow> Inr (SetPix j i (committed res) buf)) s =
   (if js \<noteq> [] \<and> samplesPerPixel r < 2 then Inl OutOfRange
    else Inr (paint (pixelColor ext camera r) (\<lambda>x y. x \<in> set js \<and> y = i) s))"
proof -
  let ?body = "\<lambda>j buf. case renderPixel_unchecked (past i j) ext camera r i j of
                 Inl e \<Rightarrow> Inl e
               | Inr res \<Rightarrow> Inr (SetPix j i (committed res) buf)"
  have "forEach js ?body s =
      (if \<exists>j\<in>set js. samplesPerPixel r < 2 then Inl OutOfRange
       else Inr (paint (pixelColor ext camera r) (\<lambda>x y. \<exists>j\<in>set js. x = j \<and> y = i) s))"
    by (rule forEach_paint) (simp add: renderPixel_unchecked_eq SetPix_paint)
  moreover have "(\<exists>j\<in>set js. samplesPerPixel r < 2) \<longleftrightarrow> js \<noteq> [] \<and> samplesPerPixel r < 2"
    by (cases js) auto
  moreover have "(\<lambda>x y. \<exists>j\<in>set js. x = j \<and> y = i) = (\<lambda>x y. x \<in> set js \<and> y = i)"
    by (auto simp: fun_eq_iff)
  ultimately show ?thesis by (simp only:)
qed

lemma rows_paint_unchecked:
  "forEach is
     (\<lambda>i. forEach js
        (\<lambda>j buf. case renderPixel_unchecked (past i j) ext camera r i j of
                    Inl e \<Rightarrow> Inl e
                  | Inr res \<Rightarrow> Inr (SetPix j i (committed res) buf))) s =
   (if is \<noteq> [] \<and> js \<noteq> [] \<and> samplesPerPixel r < 2 then Inl OutOfRange
    else Inr (paint (pixelColor ext camera r) (\<lambda>x y. x \<in> set js \<and> y \<in> set is) s))"
proof -
  let ?inner = "\<lambda>i. forEach js
        (\<lambda>j buf. case renderPixel_unchecked (past i j) ext camera r i j of
                    Inl e \<Rightarrow> Inl e
                  | Inr res \<Rightarrow> Inr (SetPix j i (committed res) buf))"
  have "forEach is ?inner s =
     (if \<exists>i\<in>set is. js \<noteq> [] \<and> samplesPerPixel r < 2 then Inl OutOfRange
      else Inr (paint (pixelColor ext camera r) (\<lambda>x y. \<exists>i\<in>set is. x \<in> set js \<and> y = i) s))"
    by (rule forEach_paint) (rule row_paint_unchecked)
  moreover have "(\<exists>i\<in>set is. js \<noteq> [] \<and> samplesPerPixel r < 2) \<longleftrightarrow>
                 is \<noteq> [] \<and> js \<noteq> [] \<and> samplesPerPixel r < 2"
    by (cases "is") auto
  moreover have "(\<lambda>x y. \<exists>i\<in>set is. x \<in> set js \<and> y = i) = (\<lambda>x y. x \<in> set js \<and> y \<in> set is)"
    by (auto simp: fun_eq_iff)
  ultimately show ?thesis by (simp only:)
qed

lemma RenderWorker_unchecked_eq:
  "RenderWorker_unchecked past ext camera r b buffer =
     (if (\<exists>x y. inBounds b x y) \<and> samplesPerPixel r < 2 then Inl OutOfRange
      else Inr (paint (pixelColor ext camera r) (inBounds b) buffer))"
proof -
  let ?js = "[unat (minX b)..<unat (maxX b)]"
  let ?is = "[unat (minY b)..<unat (maxY b)]"
  have "?is \<noteq> [] \<and> ?js \<noteq> [] \<longleftrightarrow> (\<exists>x y. inBounds b x y)"
  proof
    assume "?is \<noteq> [] \<and> ?js \<noteq> []"
    then have "inBounds b (unat (minX b)) (unat (minY b))"
      by (simp add: inBounds_def)
    then show "\<exists>x y. inBounds b x y" by blast
  next
    assume "\<exists>x y. inBounds b x y"
    then show "?is \<noteq> [] \<and> ?js \<noteq> []" by (auto simp: inBounds_def)
  qed
  then have "(?is \<noteq> [] \<and> ?js \<noteq> [] \<and> samplesPerPixel r < 2) \<longleftrightarrow>
             ((\<exists>x y. inBounds b x y) \<and> samplesPerPixel r < 2)"
    by blast
  moreover have "(\<lambda>x y. x \<in> set ?js \<and> y \<in> set ?is) = inBounds b"
    by (auto simp: inBounds_def fun_eq_iff)
  ultimately show ?thesis
    unfolding RenderWorker_unchecked_def rows_paint_unchecked by (simp only:)
qed

lemma renderTiles_unchecked_eq:
  "renderTiles_unchecked past ext camera r tiles buffer =
     (if \<exists>t\<in>set tiles. (\<exists>x y. inBounds (tileOf r t) x y) \<and> samplesPerPixel r < 2
      then Inl OutOfRange
      else Inr (paint (pixelColor ext camera r)
                 (\<lambda>x y. \<exists>t\<in>set tiles. inBounds (tileOf r t) x y) buffer))"
  unfolding renderTiles_unchecked_def by (rule forEach_paint) (rule RenderWorker_unchecked_eq)

lemma RenderScheduled_unchecked_eq:
  "RenderScheduled_unchecked past ext camera r tiles =
     (if 2 ^ 31 \<le> unat (tilesNum r) then Inl IntOverflow
      else if \<exists>t\<in>set tiles. (\<exists>x y. inBounds (tileOf r t) x y) \<and> samplesPerPixel r < 2
      then Inl OutOfRange
      else Inr (r\<lparr>colorBuffer :=
                  paint (pixelColor ext camera r)
                    (\<lambda>x y. \<exists>t\<in>set tiles. inBounds (tileOf r t) x y)
                    (FillColor 4278190080 (colorBuffer r))\<rparr>))"
  by (auto simp: RenderScheduled_unchecked_def renderTiles_unchecked_eq)

lemma RenderScheduled_unchecked_extends:
  "RenderScheduled ext camera r tiles = Inr r' \<Longrightarrow>
   RenderScheduled_unchecked past ext camera r tiles = Inr r'"
  by (auto simp: RenderScheduled_eq RenderScheduled_unchecked_eq pixelFails_def split: if_splits)

lemma RenderScheduled_unchecked_returns:
  "2 \<le> samplesPerPixel r \<Longrightarrow> unat (tilesNum r) < 2 ^ 31 \<Longrightarrow>
   \<exists>r'. RenderScheduled_unchecked past ext camera r tiles = Inr r'"
  by (simp add: RenderScheduled_unchecked_eq)

lemma RenderScheduled_unchecked_pix:
  assumes "RenderScheduled_unchecked past ext camera r tiles = Inr r'"
  shows "pix (colorBuffer r') x y =
           (if \<exists>t\<in>set tiles. inBounds (tileOf r t) x y then pixelColor ext camera r x y
            else 4278190080)"
  using assms
  by (auto simp: RenderScheduled_unchecked_eq paint_def FillColor_def split: if_splits)

lemma RenderScheduled_unchecked_twice:
  assumes tiles: "set tiles = set tiles'"
    and first: "RenderScheduled_unchecked past ext camera r tiles = Inr r'"
  shows "RenderScheduled_unchecked past' ext camera r' tiles' = Inr r'"
proof -
  let ?cov = "\<lambda>x y. \<exists>t\<in>set tiles. inBounds (tileOf r t) x y"
  let ?fb = "paint (pixelColor ext camera r) ?cov (FillColor 4278190080 (colorBuffer r))"
  from first have small: "\<not> 2 ^ 31 \<le> unat (tilesNum r)"
    and safe: "\<not> (\<exists>t\<in>set tiles. (\<exists>x y. inBounds (tileOf r t) x y) \<and> samplesPerPixel r < 2)"
    and r': "r' = r\<lparr>colorBuffer := ?fb\<rparr>"
    by (auto simp: RenderScheduled_unchecked_eq split: if_splits)
  have num: "tilesNum r' = tilesNum r" by (simp add: r' tilesNum_def)
  have tile: "tileOf r' t = tileOf r t" for t
    by (simp add: r' tileOf_def paint_def FillColor_def)
  have spp: "samplesPerPixel r' = samplesPerPixel r" by (simp add: r')
  have col: "pixelColor ext camera r' = pixelColor ext camera r"
    by (simp add: r' pixelColor_def fun_eq_iff)
  have fill: "FillColor 4278190080 (colorBuffer r') = FillColor 4278190080 (colorBuffer r)"
    by (simp add: r' paint_def FillColor_def)
  have "RenderScheduled_unchecked past' ext camera r' tiles' = Inr (r'\<lparr>colorBuffer := ?fb\<rparr>)"
    using small safe
    by (simp add: RenderScheduled_unchecked_eq num tile spp col fill tiles [symmetric])
  also have "r'\<lparr>colorBuffer := ?fb\<rparr> = r'" by (simp add: r')
  finally show ?thesis .
qed

lemma tilesNum_after_render_unchecked:
  "RenderScheduled_unchecked past ext camera r tiles = Inr r' \<Longrightarrow> tilesNum r' = tilesNum r"
  by (auto simp: RenderScheduled_unchecked_eq tilesNum_def split: if_splits)

lemma needsMoreSamples_unchecked_converged:
  assumes "2 \<le> spp" and "Length (Vector3_sub v v) \<le> SmallFloat ext" and "i < 2"
  shows "needsMoreSamples_unchecked ext True past
           ((replicate spp (Vector3s 0))[0 := v, 1 := v]) i = False"
proof -
  let ?smp = "(replicate spp (Vector3s 0))[0 := v, 1 := v]"
  have f0: "fetch_unchecked past ?smp 0 = v"
    using assms(1) by (simp add: fetch_unchecked_def nth_list_update)
  have fi: "fetch_unchecked past ?smp i = v"
    using assms(1,3) by (auto simp: fetch_unchecked_def nth_list_update)
  show ?thesis
    unfolding needsMoreSamples_unchecked_def f0 fi using assms(2) by simp
qed

lemma Normal_lightDir:
  "Normal (SmallNumber demoExternals) lightDir = Vector3_div lightDir (sqrt 3)"
proof -
  have "Length lightDir = sqrt 3"
    by (simp add: Length_def lightDir_def)
  moreover have "\<not> sqrt 3 < 1 / 100000000"
  proof -
    have "(1 :: real) \<le> sqrt 3" by simp
    moreover have "(1 :: real) / 100000000 < 1" by simp
    ultimately show ?thesis by linarith
  qed
  ultimately show ?thesis
    by (simp add: Normal_def demoExternals_def)
qed

lemma lightValue_demoHit: "lightValue demoExternals (demoHit d) = 1 / 10"
proof -
  have "Dot (Vector3 0 0 1) (Vector3_neg (Vector3_div lightDir (sqrt 3))) = - (1 / sqrt 3)"
    by (simp add: Dot_def Vector3_neg_def Vector3_div_def lightDir_def)
  moreover have "max 0 (- (1 / sqrt 3)) = (0 :: real)"
    by simp
  ultimately show ?thesis
    by (simp add: lightValue_def Normal_lightDir demoHit_def)
qed

lemma shade_demoHit:
  "Vector3_mul (ToVector demoExternals (color (material (demoHit d)))) (lightValue demoExternals (demoHit d)) =
     Vector3 (1 / 10) (1 / 10) (1 / 10)"
  by (simp add: lightValue_demoHit) (simp add: demoExternals_def Vector3_mul_def)

section \<open>The claims\<close>

text \<open>
  In what follows a pixel is evaluated by \<open>renderPixel\<close>, whose result is either the number
  of samples taken together with the packed colour handed to \<^verbatim>\<open>SetPix\<close>, or the error at
  which the evaluation stops; \<open>renderPixel_unchecked\<close> is the same evaluation in a build that
  does not stop at a read past the accumulator. Whenever the first returns a result, the
  second returns the same one (\<open>renderPixel_unchecked_extends\<close>). The two initial samples of
  a pixel are two calls of \<open>SamplePixel\<close> with the same arguments, hence the same vector.
\<close>

text \<open>
  C1. Claimed: with adaptive sampling disabled and \<open>samplesPerPixel \<ge> 2\<close>, every pixel takes
  exactly \<open>samplesPerPixel\<close> samples and commits their mean. The source does not do so: the
  loop of line 78 runs while \<^verbatim>\<open>sampleID < numSamples\<close>, which is \<open>2 < 2\<close> on entry. With
  \<open>samplesPerPixel = 8\<close> and adaptive sampling disabled, every pixel of every scene takes two
  samples and commits the mean of the two.
\<close>

theorem C1_two_samples_taken_of_eight:
  "renderPixel ext camera (r\<lparr>samplesPerPixel := 8, bVariableSamplesPerPixel := False\<rparr>) i j =
     Inr \<lparr>taken = 2,
          committed = FromVector ext
            (meanOfTwo (SamplePixel ext camera (renderables r) i j)
                       (SamplePixel ext camera (renderables r) i j))\<rparr>"
  by (simp add: renderPixel_eq pixelFails_def pixelColor_def Let_def)

text \<open>
  C2. Claimed: the convergence test compares the two initial samples, so its outcome does not
  depend on where the pixel is. The source compares \<^verbatim>\<open>samples[0]\<close> with \<^verbatim>\<open>samples[i]\<close>, where
  \<open>i\<close> is the row of the pixel. For the same two initial samples \<open>(1, 0, 0)\<close> in an accumulator
  of eight entries, the test says "converged" in row 1 and "take more samples" in row 2,
  where it compares the first sample with a zeroed entry. Lemma \<open>needsMoreSamples_by_row\<close>
  gives the outcome for every row.
\<close>

theorem C2_decision_depends_on_row:
  "needsMoreSamples demoExternals True
     ((replicate 8 (Vector3s 0))[0 := Vector3 1 0 0, 1 := Vector3 1 0 0]) 1 = Inr False \<and>
   needsMoreSamples demoExternals True
     ((replicate 8 (Vector3s 0))[0 := Vector3 1 0 0, 1 := Vector3 1 0 0]) 2 = Inr True"
  by (simp add: needsMoreSamples_def fetch_def demoExternals_def Length_def Vector3_sub_def
      Vector3s_def eval_nat_numeral)

text \<open>
  C3, as amended. For every width \<open>W\<close>, height \<open>H\<close> and \<open>tilesPerRow = k > 0\<close> such that \<open>k\<close>
  divides \<open>W\<close> and \<open>H\<close>, and such that \<open>k * k\<close>, \<open>(k - 1) * W\<close> and \<open>(k - 1) * H\<close> are below
  \<open>2 ^ 32\<close>, the bounds that \<open>Render\<close> computes for the tiles \<open>0, ..., k * k - 1\<close> cover every
  pixel \<open>(x, y)\<close> with \<open>x < W\<close> and \<open>y < H\<close> exactly once, and contain no other pixel; hence
  they are pairwise disjoint half-open rectangles.
\<close>

theorem C3_tiles_partition_image:
  fixes k W H :: u32
  assumes k: "k \<noteq> 0"
    and dvW: "unat k dvd unat W" and dvH: "unat k dvd unat H"
    and fitK: "unat k * unat k < 2 ^ 32"
    and fitW: "(unat k - 1) * unat W < 2 ^ 32"
    and fitH: "(unat k - 1) * unat H < 2 ^ 32"
  shows "(\<forall>x y. x < unat W \<and> y < unat H \<longrightarrow>
            (\<exists>!t. t < unat (k * k) \<and> inBounds (tileBounds W H k (of_nat t)) x y)) \<and>
         (\<forall>t x y. t < unat (k * k) \<and> inBounds (tileBounds W H k (of_nat t)) x y \<longrightarrow>
            x < unat W \<and> y < unat H)"
proof -
  have k0: "0 < unat k" using k by (simp add: unat_gt_0)
  have "unat k * unat k < 2 ^ LENGTH(32)" using fitK by simp
  then have kk: "unat (k * k) = unat k * unat k"
    by (simp only: unat_mult_lem)
  have tid: "unat (of_nat t :: u32) = t" if "t < unat k * unat k" for t
    using that fitK by (intro unat_tile_id) simp
  have tdiv: "unat (of_nat t :: u32) div unat k < unat k" if "t < unat k * unat k" for t
    using that by (simp add: tid less_mult_imp_div_less)
  have eq: "inBounds (tileBounds W H k (of_nat t)) x y \<longleftrightarrow>
           (t mod unat k) * (unat W div unat k) \<le> x \<and>
           x < (t mod unat k) * (unat W div unat k) + unat W div unat k \<and>
           (t div unat k) * (unat H div unat k) \<le> y \<and>
           y < (t div unat k) * (unat H div unat k) + unat H div unat k"
    if "t < unat k * unat k" for t x y
    using inBounds_tileBounds [OF k fitW fitH dvW dvH tdiv [OF that], of x y]
    by (simp add: tid [OF that])
  have cover: "\<exists>!t. t < unat (k * k) \<and> inBounds (tileBounds W H k (of_nat t)) x y"
    if "x < unat W" "y < unat H" for x y
    using nat_tiles [OF k0 dvW dvH that]
    by (simp add: kk eq cong: conj_cong)
  have inside: "x < unat W \<and> y < unat H"
    if "t < unat (k * k)" "inBounds (tileBounds W H k (of_nat t)) x y" for t x y
  proof -
    from that(1) have "t < unat k * unat k" by (simp add: kk)
    from tile_within_image [OF k fitW fitH dvW dvH tdiv [OF this] that(2)]
    show ?thesis .
  qed
  from cover inside show ?thesis by blast
qed

text \<open>An image of 64 by 64 pixels in 8 by 8 tiles: pixel \<open>(10, 20)\<close> lies in exactly one tile.\<close>

theorem C3_witness:
  "(8 :: u32) \<noteq> 0 \<and> unat (8 :: u32) dvd unat (64 :: u32) \<and>
   unat (8 :: u32) * unat (8 :: u32) < 2 ^ 32 \<and>
   (unat (8 :: u32) - 1) * unat (64 :: u32) < 2 ^ 32 \<and>
   (\<exists>!t. t < unat (8 * 8 :: u32) \<and> inBounds (tileBounds 64 64 8 (of_nat t)) 10 20)"
proof -
  have h: "(8 :: u32) \<noteq> 0" "unat (8 :: u32) dvd unat (64 :: u32)"
    "unat (8 :: u32) dvd unat (64 :: u32)" "unat (8 :: u32) * unat (8 :: u32) < 2 ^ 32"
    "(unat (8 :: u32) - 1) * unat (64 :: u32) < 2 ^ 32"
    "(unat (8 :: u32) - 1) * unat (64 :: u32) < 2 ^ 32"
    by simp_all
  have p: "(10 :: nat) < unat (64 :: u32) \<and> (20 :: nat) < unat (64 :: u32)" by simp
  from C3_tiles_partition_image [OF h, THEN conjunct1, rule_format, OF p] h
  show ?thesis by blast
qed

text \<open>
  The claim as stated, for every width, fails where the unsigned product \<^verbatim>\<open>tileX * width\<close>
  wraps around. For a width of \<open>2 ^ 30\<close>, a height of 8 and the constructor's 8 tiles per row,
  \<open>4 * 2 ^ 30\<close> is 0 in 32 bits, so tile 4 gets the bounds of tile 0 and pixel \<open>(0, 0)\<close> lies in
  both.
\<close>

theorem C3_counterexample:
  "(8 :: u32) \<noteq> 0 \<and> unat (8 :: u32) dvd unat (1073741824 :: u32) \<and>
   unat (8 :: u32) dvd unat (8 :: u32) \<and>
   (0 :: nat) < unat (1073741824 :: u32) \<and> (0 :: nat) < unat (8 :: u32) \<and>
   (0 :: nat) < unat (8 * 8 :: u32) \<and> (4 :: nat) < unat (8 * 8 :: u32) \<and>
   inBounds (tileBounds 1073741824 8 8 (of_nat 0)) 0 0 \<and>
   inBounds (tileBounds 1073741824 8 8 (of_nat 4)) 0 0"
  by (simp add: inBounds_def tileBounds_def)

text \<open>
  C4, as amended. For every ray for which at least one object reports a hit whose distance
  is below the sentinel \<open>FLT_MAX\<close>, \<open>SamplePixel\<close> selects among the reported hits, taken in
  the order of the objects, the first one of minimum distance: every hit reported before it is
  strictly farther, every hit reported after it is at least as far. It returns the colour of
  that hit's material times \<open>min(1, max(0, dot(normal, -normalize(lightDir))) + 0.1)\<close> with
  \<open>lightDir = (-1, -1, 1)\<close>, where \<open>normalize\<close> is \<^verbatim>\<open>Vector3::Normal\<close>.
\<close>

theorem C4_closest_valid_hit_shaded:
  assumes "\<exists>h\<in>set (reportedHits (camera x y) rs). distance h < FLT_MAX"
  shows "\<exists>h pre post.
           reportedHits (camera x y) rs = pre @ h # post \<and>
           (\<forall>p\<in>set pre. distance h < distance p) \<and>
           (\<forall>q\<in>set post. distance h \<le> distance q) \<and>
           SamplePixel ext camera rs y x =
             Vector3_mul (ToVector ext (color (material h)))
               (min 1 (max 0 (Dot (normal h)
                    (Vector3_neg (Normal (SmallNumber ext) (Vector3 (- 1) (- 1) 1)))) + 1 / 10))"
proof -
  let ?hs = "reportedHits (camera x y) rs"
  have "foldl considerHit None ?hs \<noteq> None"
    using assms foldl_considerHit_None [of ?hs] by fastforce
  then obtain h where h: "foldl considerHit None ?hs = Some h" by auto
  from foldl_considerHit_Some [OF h] obtain pre post where
    "?hs = pre @ h # post" "\<forall>p\<in>set pre. distance h < distance p"
    "\<forall>q\<in>set post. distance h \<le> distance q"
    by blast
  moreover have "SamplePixel ext camera rs y x =
             Vector3_mul (ToVector ext (color (material h)))
               (min 1 (max 0 (Dot (normal h)
                    (Vector3_neg (Normal (SmallNumber ext) (Vector3 (- 1) (- 1) 1)))) + 1 / 10))"
    using h by (simp add: SamplePixel_def closestOf_foldl lightValue_def lightDir_def Let_def)
  ultimately show ?thesis by blast
qed

text \<open>Four objects, of which three report hits at distances 5, 3 and 3.\<close>

theorem C4_witness:
  "(\<exists>h\<in>set (reportedHits (demoCamera 0 0)
        [\<lambda>ray. Some (demoHit 5), \<lambda>ray. None, \<lambda>ray. Some (demoHit 3), \<lambda>ray. Some (demoHit 3)]).
      distance h < FLT_MAX) \<and>
   (\<exists>h pre post.
      reportedHits (demoCamera 0 0)
        [\<lambda>ray. Some (demoHit 5), \<lambda>ray. None, \<lambda>ray. Some (demoHit 3), \<lambda>ray. Some (demoHit 3)] =
        pre @ h # post \<and>
      (\<forall>p\<in>set pre. distance h < distance p) \<and>
      (\<forall>q\<in>set post. distance h \<le> distance q) \<and>
      SamplePixel demoExternals demoCamera
        [\<lambda>ray. Some (demoHit 5), \<lambda>ray. None, \<lambda>ray. Some (demoHit 3), \<lambda>ray. Some (demoHit 3)] 0 0 =
        Vector3_mul (ToVector demoExternals (color (material h)))
          (min 1 (max 0 (Dot (normal h)
             (Vector3_neg (Normal (SmallNumber demoExternals) (Vector3 (- 1) (- 1) 1)))) + 1 / 10)))"
proof -
  have hyp: "\<exists>h\<in>set (reportedHits (demoCamera 0 0)
        [\<lambda>ray. Some (demoHit 5), \<lambda>ray. None, \<lambda>ray. Some (demoHit 3), \<lambda>ray. Some (demoHit 3)]).
      distance h < FLT_MAX"
    by (simp add: reportedHits_def map_filter_simps demoHit_def FLT_MAX_def)
  from C4_closest_valid_hit_shaded [where camera = demoCamera and x = 0 and y = 0
      and ext = demoExternals, OF hyp] hyp
  show ?thesis by blast
qed

text \<open>
  The claim as stated, for every ray for which an object reports a hit, fails for a hit whose
  distance is the sentinel itself: line 107 compares with \<^verbatim>\<open><\<close>, the hit is not retained,
  and \<open>SamplePixel\<close> returns black where the claimed value is a tenth of the material's
  colour.
\<close>

theorem C4_counterexample:
  "reportedHits (demoCamera 0 0) [\<lambda>ray. Some (demoHit FLT_MAX)] = [demoHit FLT_MAX] \<and>
   SamplePixel demoExternals demoCamera [\<lambda>ray. Some (demoHit FLT_MAX)] 0 0 = Vector3 0 0 0 \<and>
   Vector3_mul (ToVector demoExternals (color (material (demoHit FLT_MAX))))
     (min 1 (max 0 (Dot (normal (demoHit FLT_MAX))
        (Vector3_neg (Normal (SmallNumber demoExternals) (Vector3 (- 1) (- 1) 1)))) + 1 / 10)) =
     Vector3 (1 / 10) (1 / 10) (1 / 10)"
proof -
  have reported: "reportedHits (demoCamera 0 0) [\<lambda>ray. Some (demoHit FLT_MAX)] = [demoHit FLT_MAX]"
    by (simp add: reportedHits_def map_filter_simps)
  have black: "SamplePixel demoExternals demoCamera [\<lambda>ray. Some (demoHit FLT_MAX)] 0 0 = Vector3 0 0 0"
    by (simp add: SamplePixel_def considerHit_def closestDistance_def Vector3s_def demoHit_def)
  have claimed: "Vector3_mul (ToVector demoExternals (color (material (demoHit FLT_MAX))))
     (min 1 (max 0 (Dot (normal (demoHit FLT_MAX))
        (Vector3_neg (Normal (SmallNumber demoExternals) (Vector3 (- 1) (- 1) 1)))) + 1 / 10)) =
     Vector3 (1 / 10) (1 / 10) (1 / 10)"
    using shade_demoHit [of FLT_MAX] by (simp add: lightValue_def lightDir_def)
  from reported black claimed show ?thesis by (intro conjI)
qed



text \<open>
  C6. For every ray for which no object reports a hit, and so for every ray when there are
  no objects, \<open>SamplePixel\<close> returns the zero vector.
\<close>

theorem C6_no_hit_is_black:
  "\<forall>renderable\<in>set rs. renderable (camera x y) = None \<Longrightarrow>
   SamplePixel ext camera rs y x = Vector3 0 0 0"
  by (simp add: SamplePixel_def closestOf_no_hit Vector3s_def)

text \<open>Two objects that report no hit.\<close>

theorem C6_witness:
  "SamplePixel demoExternals demoCamera [\<lambda>ray. None, \<lambda>ray. None] 7 9 = Vector3 0 0 0"
  using C6_no_hit_is_black [of "[\<lambda>ray. None, \<lambda>ray. None]" demoCamera 9 7 demoExternals]
  by simp

text \<open>
  C7. With no renderables registered, every pixel of the framebuffer is \<open>0xff000000\<close> after
  \<open>Render\<close> has returned, given that \<^verbatim>\<open>Color::FromVector\<close> packs the zero vector as that
  colour (\<open>blackIsBackground\<close>). The pass is the one without checked indexing, whatever lies
  past the accumulator, and it does return when \<open>samplesPerPixel \<ge> 2\<close> and \<open>tilesNum\<close> fits an
  \<^verbatim>\<open>int\<close>: for the constructor's configuration it returns for every image size. By
  \<open>RenderScheduled_unchecked_pix\<close> the same holds for every order in which the tiles are
  rendered.
\<close>

theorem C7_empty_scene_all_background:
  assumes "renderables r = []"
    and "blackIsBackground ext"
  shows "(\<forall>r'. Render_unchecked past ext camera r = Inr r' \<longrightarrow>
            pix (colorBuffer r') x y = 4278190080) \<and>
         (2 \<le> samplesPerPixel r \<and> unat (tilesNum r) < 2 ^ 31 \<longrightarrow>
            (\<exists>r'. Render_unchecked past ext camera r = Inr r'))"
  using assms
  by (auto simp: Render_unchecked_def RenderScheduled_unchecked_pix pixelColor_empty
      intro: RenderScheduled_unchecked_returns)

text \<open>
  An empty scene rendered into 64 by 64 pixels with the constructor's configuration; pixel
  \<open>(3, 40)\<close> is in a row past the accumulator.
\<close>

theorem C7_witness:
  "renderables (Renderer_new 64 64 :: unit Renderer) = [] \<and>
   blackIsBackground demoExternals \<and>
   2 \<le> samplesPerPixel (Renderer_new 64 64 :: unit Renderer) \<and>
   unat (tilesNum (Renderer_new 64 64 :: unit Renderer)) < 2 ^ 31 \<and>
   (\<exists>r'. Render_unchecked demoPast demoExternals demoCamera (Renderer_new 64 64) = Inr r' \<and>
         pix (colorBuffer r') 3 40 = 4278190080)"
proof -
  let ?r = "Renderer_new 64 64 :: unit Renderer"
  have e: "renderables ?r = []"
    by (simp add: Renderer_new_def)
  have b: "blackIsBackground demoExternals"
    by (simp add: blackIsBackground_def demoExternals_def)
  have s: "2 \<le> samplesPerPixel ?r \<and> unat (tilesNum ?r) < 2 ^ 31"
    by (simp add: Renderer_new_def tilesNum_def)
  note c = C7_empty_scene_all_background [OF e b, of demoPast demoCamera 3 40]
  from c s obtain r' where r': "Render_unchecked demoPast demoExternals demoCamera ?r = Inr r'"
    by blast
  with c have "pix (colorBuffer r') 3 40 = 4278190080" by blast
  with e b s r' show ?thesis by blast
qed

text \<open>
  C8. When \<open>Render\<close> has returned, a second \<open>Render\<close> with the same camera, scene and
  configuration returns the same renderer state, framebuffer included: the first thing it does
  is to fill the buffer, and each pixel's colour depends on the pixel alone. The passes are
  the ones without checked indexing, and what lies past the accumulator may differ between
  the two. A pass does return when \<open>samplesPerPixel \<ge> 2\<close> and \<open>tilesNum\<close> fits an \<^verbatim>\<open>int\<close>. By
  \<open>RenderScheduled_unchecked_twice\<close> the two passes may also render the tiles in different
  orders.
\<close>

theorem C8_render_twice_same_framebuffer:
  "(\<forall>r'. Render_unchecked past ext camera r = Inr r' \<longrightarrow>
      Render_unchecked past' ext camera r' = Inr r') \<and>
   (2 \<le> samplesPerPixel r \<and> unat (tilesNum r) < 2 ^ 31 \<longrightarrow>
      (\<exists>r'. Render_unchecked past ext camera r = Inr r'))"
proof (intro conjI allI impI)
  fix r'
  assume "Render_unchecked past ext camera r = Inr r'"
  then have first: "RenderScheduled_unchecked past ext camera r [0..<unat (tilesNum r)] = Inr r'"
    by (simp add: Render_unchecked_def)
  have "RenderScheduled_unchecked past' ext camera r' [0..<unat (tilesNum r)] = Inr r'"
    by (rule RenderScheduled_unchecked_twice [OF refl first])
  then show "Render_unchecked past' ext camera r' = Inr r'"
    by (simp add: Render_unchecked_def tilesNum_after_render_unchecked [OF first])
next
  assume "2 \<le> samplesPerPixel r \<and> unat (tilesNum r) < 2 ^ 31"
  then show "\<exists>r'. Render_unchecked past ext camera r = Inr r'"
    by (simp add: Render_unchecked_def RenderScheduled_unchecked_returns)
qed

text \<open>
  A scene of one object rendered twice into 64 by 64 pixels with the constructor's
  configuration, the second time with other contents of the memory past the accumulator.
\<close>

theorem C8_witness:
  "2 \<le> samplesPerPixel
          (AddRenderable (\<lambda>ray. Some (demoHit 3)) (Renderer_new 64 64) :: unit Renderer) \<and>
   unat (tilesNum
          (AddRenderable (\<lambda>ray. Some (demoHit 3)) (Renderer_new 64 64) :: unit Renderer))
     < 2 ^ 31 \<and>
   (\<exists>r'. Render_unchecked demoPast demoExternals demoCamera
           (AddRenderable (\<lambda>ray. Some (demoHit 3)) (Renderer_new 64 64)) = Inr r' \<and>
         Render_unchecked (\<lambda>i j k. Vector3 0 0 0) demoExternals demoCamera r' = Inr r' \<and>
         pix (colorBuffer r') 3 40 = 4294967295)"
proof -
  let ?r = "AddRenderable (\<lambda>ray. Some (demoHit 3)) (Renderer_new 64 64) :: unit Renderer"
  have s: "2 \<le> samplesPerPixel ?r \<and> unat (tilesNum ?r) < 2 ^ 31"
    by (simp add: AddRenderable_def Renderer_new_def tilesNum_def)
  note c = C8_render_twice_same_framebuffer
    [of demoPast demoExternals demoCamera ?r "\<lambda>i j k. Vector3 0 0 0"]
  from c s obtain r' where r': "Render_unchecked demoPast demoExternals demoCamera ?r = Inr r'"
    by blast
  with c have again: "Render_unchecked (\<lambda>i j k. Vector3 0 0 0) demoExternals demoCamera r' = Inr r'"
    by blast
  have closest: "considerHit None (demoHit 3) = Some (demoHit 3)"
    by (simp add: considerHit_def closestDistance_def demoHit_def FLT_MAX_def)
  have col: "pixelColor demoExternals demoCamera ?r 3 40 = 4294967295"
    by (simp add: pixelColor_def SamplePixel_def closest shade_demoHit AddRenderable_def
        Renderer_new_def)
       (simp add: demoExternals_def meanOfTwo_def Vector3_add_def Vector3_div_def)
  have "inBounds (tileOf ?r 40) 3 40"
    by (simp add: tileOf_def tileBounds_def inBounds_def AddRenderable_def Renderer_new_def)
  moreover have "40 \<in> set [0..<unat (tilesNum ?r)]"
    by (simp add: AddRenderable_def Renderer_new_def tilesNum_def)
  ultimately have cov: "\<exists>t\<in>set [0..<unat (tilesNum ?r)]. inBounds (tileOf ?r t) 3 40"
    by blast
  from r' have "RenderScheduled_unchecked demoPast demoExternals demoCamera ?r
      [0..<unat (tilesNum ?r)] = Inr r'"
    by (simp add: Render_unchecked_def)
  from RenderScheduled_unchecked_pix [OF this, of 3 40] cov col
  have "pix (colorBuffer r') 3 40 = 4294967295" by simp
  with s r' again show ?thesis by blast
qed

text \<open>
  C10. Claimed: with \<open>samplesPerPixel \<ge> 2\<close>, every index into the accumulator is below
  \<open>samplesPerPixel\<close>. The source does not ensure it: with the constructor's configuration
  (8 samples per pixel, adaptive sampling enabled) every pixel of row 8 reads \<^verbatim>\<open>samples[8]\<close> on
  line 77. By \<open>Render_default_64_out_of_range\<close> a render pass over 64 by 64 pixels reaches such
  a pixel. The other part of the claim holds: \<open>numSamples\<close> is 2 when a colour is committed
  (\<open>renderPixel_eq\<close>).
\<close>

theorem C10_row_eight_reads_out_of_range:
  "renderPixel ext camera (Renderer_new sx sy) 8 j = Inl OutOfRange"
  by (simp add: renderPixel_eq pixelFails_def Renderer_new_def)

end
